theory Spec2Isabelle
  imports
    Complex_Main
    "HOL-Library.Multiset"
    "HOL-Library.List_Lexorder"
    "HOL-Library.Char_ord"
    "HOL-Library.Product_Lexorder"
begin

section \<open>Campus funding manager: data model\<close>

text \<open>
  The repository has two front ends over the same data structures: the command-line loop of
  \<^verbatim>\<open>main.py\<close> and the Flask handlers of \<^verbatim>\<open>app.py\<close>. Both keep a set and a dict of
  users, a dict of funding requests, a binary search tree keyed by amount, a \<^verbatim>\<open>heapq\<close> list
  keyed by urgency and a deque of approved requests (\<^verbatim>\<open>structures.py\<close>), and both write
  the two dicts to a JSON file after a mutation (\<^verbatim>\<open>storage.py\<close>).

  Strings are byte lists; the order on strings is the lexicographic order of the bytes, which
  is the order Python's \<^verbatim>\<open>str\<close> comparison gives (code point order, which UTF-8 preserves).
\<close>

subsection \<open>Python values\<close>

text \<open>
  A Python \<^verbatim>\<open>float\<close>: a finite value, an infinity or NaN. \<^verbatim>\<open>float("nan")\<close>,
  \<^verbatim>\<open>float("inf")\<close> and \<^verbatim>\<open>float("-5")\<close> all parse. Only comparison is ever applied to
  an amount, never arithmetic, so a finite double is represented by its real value.
\<close>

datatype pyfloat = NaN | NegInf | Finite real | PosInf

text \<open>\<^verbatim>\<open>a < b\<close> on floats: false whenever an operand is NaN.\<close>

fun float_lt :: "pyfloat \<Rightarrow> pyfloat \<Rightarrow> bool" where
  "float_lt NaN _ = False"
| "float_lt _ NaN = False"
| "float_lt NegInf NegInf = False"
| "float_lt NegInf _ = True"
| "float_lt (Finite x) NegInf = False"
| "float_lt (Finite x) (Finite y) = (x < y)"
| "float_lt (Finite x) PosInf = True"
| "float_lt PosInf _ = False"

text \<open>\<^verbatim>\<open>a == b\<close> on floats: NaN is equal to nothing.\<close>

definition float_eq :: "pyfloat \<Rightarrow> pyfloat \<Rightarrow> bool" where
  "float_eq a b = (a \<noteq> NaN \<and> a = b)"

text \<open>\<^verbatim>\<open>a >= b\<close> on floats.\<close>

definition float_ge :: "pyfloat \<Rightarrow> pyfloat \<Rightarrow> bool" where
  "float_ge a b = (float_lt b a \<or> float_eq a b)"

text \<open>The exceptions that the modelled code can raise and does not catch.\<close>

datatype pyerror =
  TypeError | KeyError | IndexError | AttributeError | RecursionError | ValueError

subsection \<open>models.py\<close>

text \<open>
  The dataclasses \<^verbatim>\<open>User\<close> and \<^verbatim>\<open>FundingRequest\<close>. The field \<^verbatim>\<open>id\<close> of each is
  renamed (\<open>user_id\<close>, \<open>req_id\<close>) since \<open>id\<close> is the identity function of HOL.
\<close>

record User =
  user_id :: string
  name :: string
  role :: string

record FundingRequest =
  req_id :: string
  student_id :: string
  amount :: pyfloat
  urgency :: int
  status :: string

text \<open>
  \<^verbatim>\<open>FundingRequest\<close> objects are shared: one object is held by the requests dict, by a tree
  node, by a heap entry and by the approved queue at the same time, and its \<^verbatim>\<open>status\<close> is
  assigned through any of them. The objects therefore live in a store, a list indexed by
  reference, and the structures hold references. A new object is appended; no object is
  ever deleted. \<^verbatim>\<open>User\<close> objects are never mutated and are held by value.
\<close>

type_synonym ref = nat
type_synonym store = "FundingRequest list"

text \<open>
  A Python dict keeps its keys in insertion order: assigning to a key that is present
  replaces the value in place, assigning to a new key appends.
\<close>

type_synonym ('k, 'v) dict = "('k \<times> 'v) list"

definition dict_get :: "('k, 'v) dict \<Rightarrow> 'k \<Rightarrow> 'v option" where
  "dict_get d k = map_of d k"

fun dict_set :: "('k, 'v) dict \<Rightarrow> 'k \<Rightarrow> 'v \<Rightarrow> ('k, 'v) dict" where
  "dict_set [] k v = [(k, v)]"
| "dict_set ((k', v') # d) k v = (if k' = k then (k, v) # d else (k', v') # dict_set d k v)"

definition dict_keys :: "('k, 'v) dict \<Rightarrow> 'k list" where
  "dict_keys d = map fst d"

definition dict_values :: "('k, 'v) dict \<Rightarrow> 'v list" where
  "dict_values d = map snd d"

section \<open>structures.py\<close>

subsection \<open>RequestBST\<close>

text \<open>
  A \<^verbatim>\<open>BSTNode\<close> holds a request and two optional children; \<open>NoNode\<close> is Python's
  \<^verbatim>\<open>None\<close>. The tree only ever reads the \<^verbatim>\<open>amount\<close> of the requests it holds.
\<close>

datatype BSTNode = NoNode | BSTNode (left: BSTNode) (req: ref) (right: BSTNode)

text \<open>
  \<^verbatim>\<open>_insert\<close> and \<^verbatim>\<open>_in\<close> call themselves once for every level of the tree that
  they go down, and every call is a frame of the interpreter. CPython raises RecursionError
  at the call that would exceed its recursion limit (1000 frames unless
  \<^verbatim>\<open>sys.setrecursionlimit\<close> is called, which the program does not do). The first argument
  \<open>d\<close> of the two functions is the number of nested calls of the function that the limit
  still allows: the call with \<open>d = 0\<close> raises. How large \<open>d\<close> is at the outermost call
  depends on the frames that are already on the stack there (those of the program's own
  callers, of Flask in the web application, and the frame of the method itself).
\<close>

text \<open>
  \<^verbatim>\<open>_insert\<close> of \<^verbatim>\<open>RequestBST.insert\<close>. A child is assigned only after the nested call
  has returned, so a call that raises leaves the tree as it was.
\<close>

fun bst_insert :: "nat \<Rightarrow> store \<Rightarrow> BSTNode \<Rightarrow> ref \<Rightarrow> pyerror + BSTNode" where
  "bst_insert d objs NoNode r =
     (if d = 0 then Inl RecursionError else Inr (BSTNode NoNode r NoNode))"
| "bst_insert d objs (BSTNode l q rt) r =
     (if d = 0 then Inl RecursionError
      else if float_lt (amount (objs ! r)) (amount (objs ! q))
      then (case bst_insert (d - 1) objs l r of
              Inl e \<Rightarrow> Inl e
            | Inr l' \<Rightarrow> Inr (BSTNode l' q rt))
      else (case bst_insert (d - 1) objs rt r of
              Inl e \<Rightarrow> Inl e
            | Inr rt' \<Rightarrow> Inr (BSTNode l q rt')))"



subsection \<open>heapq\<close>

text \<open>
  \<^verbatim>\<open>push_heap\<close> and \<^verbatim>\<open>pop_heap\<close> call \<^verbatim>\<open>heapq.heappush\<close> and \<^verbatim>\<open>heapq.heappop\<close> of
  the Python standard library. Their algorithm (CPython's \<^verbatim>\<open>Lib/heapq.py\<close>) is written out
  here on a list, over the comparison \<open>lt\<close> of the elements, which may raise. The
  functions work on the list in place: when a comparison raises, the list stays as the
  function has left it, and this list is returned with the exception. CPython runs the C
  version of the module (\<^verbatim>\<open>_heapq\<close>), which exchanges the item with its parent or child
  at every step of a loop, so at every comparison the item that is being moved is in the
  list at its current position.
\<close>

text \<open>
  The loop of \<^verbatim>\<open>_siftdown(heap, startpos, pos)\<close>: move \<open>newitem\<close> from \<open>pos\<close> towards
  \<open>startpos\<close> while it is less than its parent.
\<close>

function siftdown_loop ::
  "('a \<Rightarrow> 'a \<Rightarrow> pyerror + bool) \<Rightarrow> 'a list \<Rightarrow> nat \<Rightarrow> nat \<Rightarrow> 'a \<Rightarrow>
   pyerror \<times> 'a list + 'a list" where
  "siftdown_loop lt heap startpos pos newitem =
     (if pos > startpos then
        (let parentpos = (pos - 1) div 2;
             parent = heap ! parentpos
         in case lt newitem parent of
              Inl e \<Rightarrow> Inl (e, heap[pos := newitem])
            | Inr b \<Rightarrow>
                if b then siftdown_loop lt (heap[pos := parent]) startpos parentpos newitem
                else Inr (heap[pos := newitem]))
      else Inr (heap[pos := newitem]))"
  by pat_completeness auto
termination
  by (relation "measure (\<lambda>(lt, heap, startpos, pos, newitem). pos)") auto

declare siftdown_loop.simps [simp del]

definition siftdown ::
  "('a \<Rightarrow> 'a \<Rightarrow> pyerror + bool) \<Rightarrow> 'a list \<Rightarrow> nat \<Rightarrow> nat \<Rightarrow> pyerror \<times> 'a list + 'a list" where
  "siftdown lt heap startpos pos = siftdown_loop lt heap startpos pos (heap ! pos)"

text \<open>
  The loop of \<^verbatim>\<open>_siftup(heap, pos)\<close>: move the smaller child up until a leaf is reached.
  It returns the list and the position where the loop stopped, also when a comparison
  raises.
\<close>

function siftup_loop ::
  "('a \<Rightarrow> 'a \<Rightarrow> pyerror + bool) \<Rightarrow> 'a list \<Rightarrow> nat \<Rightarrow> nat \<Rightarrow>
   pyerror \<times> 'a list \<times> nat + 'a list \<times> nat" where
  "siftup_loop lt heap endpos pos =
     (let childpos = 2 * pos + 1 in
      if childpos < endpos then
        (let rightpos = childpos + 1 in
         case (if rightpos < endpos
               then (case lt (heap ! childpos) (heap ! rightpos) of
                       Inl e \<Rightarrow> Inl e
                     | Inr b \<Rightarrow> Inr (if \<not> b then rightpos else childpos))
               else Inr childpos) of
           Inl e \<Rightarrow> Inl (e, heap, pos)
         | Inr c \<Rightarrow> siftup_loop lt (heap[pos := heap ! c]) endpos c)
      else Inr (heap, pos))"
  by pat_completeness auto
termination
  by (relation "measure (\<lambda>(lt, heap, endpos, pos). endpos - pos)")
     (auto split: if_splits sum.splits)

declare siftup_loop.simps [simp del]

text \<open>\<^verbatim>\<open>_siftup(heap, pos)\<close>: the loop, then the new item is put at the leaf and sifted down.\<close>

definition siftup ::
  "('a \<Rightarrow> 'a \<Rightarrow> pyerror + bool) \<Rightarrow> 'a list \<Rightarrow> nat \<Rightarrow> pyerror \<times> 'a list + 'a list" where
  "siftup lt heap pos =
     (let newitem = heap ! pos in
      case siftup_loop lt heap (length heap) pos of
        Inl (e, heap', pos') \<Rightarrow> Inl (e, heap'[pos' := newitem])
      | Inr (heap', pos') \<Rightarrow> siftdown lt (heap'[pos' := newitem]) pos pos')"

text \<open>\<^verbatim>\<open>heapq.heappush(heap, item)\<close>.\<close>

definition heappush ::
  "('a \<Rightarrow> 'a \<Rightarrow> pyerror + bool) \<Rightarrow> 'a list \<Rightarrow> 'a \<Rightarrow> pyerror \<times> 'a list + 'a list" where
  "heappush lt heap item = siftdown lt (heap @ [item]) 0 (length heap)"

text \<open>
  \<^verbatim>\<open>heapq.heappop(heap)\<close>: the popped item and the list that is left. \<^verbatim>\<open>heap.pop()\<close>
  raises IndexError on an empty list.
\<close>

definition heappop ::
  "('a \<Rightarrow> 'a \<Rightarrow> pyerror + bool) \<Rightarrow> 'a list \<Rightarrow> pyerror \<times> 'a list + 'a \<times> 'a list" where
  "heappop lt heap =
     (if heap = [] then Inl (IndexError, heap)
      else
        (let lastelt = last heap;
             heap1 = butlast heap
         in if heap1 \<noteq> [] then
              (let returnitem = heap1 ! 0 in
               case siftup lt (heap1[0 := lastelt]) 0 of
                 Inl e \<Rightarrow> Inl e
               | Inr heap2 \<Rightarrow> Inr (returnitem, heap2))
            else Inr (lastelt, heap1)))"

subsection \<open>The urgency heap\<close>

text \<open>
  A heap entry is the tuple \<^verbatim>\<open>(-req.urgency, req.id, req)\<close>. Python compares tuples
  at the first position where they differ: the negated urgencies as integers, then the ids
  as strings. When both agree the two request objects are compared: the same object, or two
  objects with equal fields, make the tuples equal, so that \<^verbatim>\<open><\<close> is false; otherwise
  \<^verbatim>\<open><\<close> on the dataclass raises TypeError, as \<^verbatim>\<open>FundingRequest\<close> defines no order.
\<close>

type_synonym entry = "int \<times> string \<times> ref"

definition request_eq :: "FundingRequest \<Rightarrow> FundingRequest \<Rightarrow> bool" where
  "request_eq a b =
     (req_id a = req_id b \<and> student_id a = student_id b \<and> float_eq (amount a) (amount b) \<and>
      urgency a = urgency b \<and> status a = status b)"

definition tuple_lt :: "store \<Rightarrow> entry \<Rightarrow> entry \<Rightarrow> pyerror + bool" where
  "tuple_lt objs a b =
     (case (a, b) of ((u1, i1, r1), (u2, i2, r2)) \<Rightarrow>
        if u1 \<noteq> u2 then Inr (u1 < u2)
        else if i1 \<noteq> i2 then Inr (i1 < i2)
        else if r1 = r2 \<or> request_eq (objs ! r1) (objs ! r2) then Inr False
        else Inl TypeError)"

text \<open>\<^verbatim>\<open>push_heap(heap, req)\<close>.\<close>

definition push_heap ::
  "store \<Rightarrow> entry list \<Rightarrow> ref \<Rightarrow> pyerror \<times> entry list + entry list" where
  "push_heap objs heap r =
     heappush (tuple_lt objs) heap (- urgency (objs ! r), req_id (objs ! r), r)"

text \<open>\<^verbatim>\<open>pop_heap(heap)\<close>: the popped request, or \<open>None\<close> for an empty heap, and the heap left.\<close>

definition pop_heap ::
  "store \<Rightarrow> entry list \<Rightarrow> pyerror \<times> entry list + ref option \<times> entry list" where
  "pop_heap objs heap =
     (if heap = [] then Inr (None, heap)
      else case heappop (tuple_lt objs) heap of
             Inl e \<Rightarrow> Inl e
           | Inr ((u, i, r), heap') \<Rightarrow> Inr (Some r, heap'))"

subsection \<open>The approved queue\<close>

text \<open>\<^verbatim>\<open>make_queue\<close>, \<^verbatim>\<open>enqueue\<close> and \<^verbatim>\<open>dequeue\<close> on a deque, front first.\<close>

definition make_queue :: "ref list" where
  "make_queue = []"

definition enqueue :: "ref list \<Rightarrow> ref \<Rightarrow> ref list" where
  "enqueue q r = q @ [r]"

definition dequeue :: "ref list \<Rightarrow> ref option \<times> ref list" where
  "dequeue q = (case q of [] \<Rightarrow> (None, q) | r # q' \<Rightarrow> (Some r, q'))"

section \<open>storage.py\<close>

text \<open>
  The data file holds one JSON object with the arrays \<^verbatim>\<open>users\<close> and \<^verbatim>\<open>requests\<close>.
  The JSON text itself is not modelled: a file is its parsed value, and writing a value
  with \<^verbatim>\<open>json.dump\<close> then reading it with \<^verbatim>\<open>json.load\<close> is taken to give the value
  back. A record of the file is represented with its keys optional (\<open>None\<close>: the key is
  absent) and its values of the JSON type that \<^verbatim>\<open>save_state\<close> writes: strings for
  \<^verbatim>\<open>id\<close>, \<^verbatim>\<open>name\<close>, \<^verbatim>\<open>role\<close>, \<^verbatim>\<open>student_id\<close> and \<^verbatim>\<open>status\<close>, a float for
  \<^verbatim>\<open>amount\<close>, an integer for \<^verbatim>\<open>urgency\<close>. On such values \<^verbatim>\<open>float(...)\<close> and
  \<^verbatim>\<open>int(...)\<close> in \<^verbatim>\<open>load_state\<close> return their argument and do not raise.
\<close>

record raw_user =
  ru_id :: "string option"
  ru_name :: "string option"
  ru_role :: "string option"

record raw_request =
  rr_id :: "string option"
  rr_student_id :: "string option"
  rr_amount :: "pyfloat option"
  rr_urgency :: "int option"
  rr_status :: "string option"

record payload =
  p_users :: "raw_user list option"
  p_requests :: "raw_request list option"

text \<open>
  What \<^verbatim>\<open>load_state\<close> finds at the path: no file, a file that \<^verbatim>\<open>json.load\<close> rejects,
  a JSON value that is not an object, or an object.
\<close>

datatype data_file = Missing | Unparseable | NotAnObject | Parsed payload

text \<open>\<^verbatim>\<open>save_state\<close>: the value written to the file.\<close>

definition save_state :: "(string, User) dict \<Rightarrow> (string, FundingRequest) dict \<Rightarrow> data_file" where
  "save_state um rm =
     Parsed \<lparr>
       p_users = Some (map (\<lambda>u. \<lparr>ru_id = Some (user_id u), ru_name = Some (name u),
                                  ru_role = Some (role u)\<rparr>) (dict_values um)),
       p_requests = Some (map (\<lambda>r. \<lparr>rr_id = Some (req_id r),
                                     rr_student_id = Some (student_id r),
                                     rr_amount = Some (amount r),
                                     rr_urgency = Some (urgency r),
                                     rr_status = Some (status r)\<rparr>) (dict_values rm))\<rparr>"

text \<open>
  The two loops of \<^verbatim>\<open>load_state\<close>. \<^verbatim>\<open>u["id"]\<close> and \<^verbatim>\<open>r["id"]\<close> raise KeyError when
  the key is absent; every other key is read with \<^verbatim>\<open>get\<close> and a default.
\<close>

fun load_users :: "raw_user list \<Rightarrow> (string, User) dict \<Rightarrow> pyerror + (string, User) dict" where
  "load_users [] um = Inr um"
| "load_users (u # us) um =
     (case ru_id u of
        None \<Rightarrow> Inl KeyError
      | Some i \<Rightarrow>
          load_users us
            (dict_set um i
               \<lparr>user_id = i,
                name = (case ru_name u of None \<Rightarrow> [] | Some n \<Rightarrow> n),
                role = (case ru_role u of None \<Rightarrow> ''student'' | Some ro \<Rightarrow> ro)\<rparr>))"

fun load_requests ::
  "raw_request list \<Rightarrow> (string, FundingRequest) dict \<Rightarrow> pyerror + (string, FundingRequest) dict" where
  "load_requests [] rm = Inr rm"
| "load_requests (r # rs) rm =
     (let amt = (case rr_amount r of None \<Rightarrow> Finite 0 | Some a \<Rightarrow> a);
          urg = (case rr_urgency r of None \<Rightarrow> 1 | Some u \<Rightarrow> u)
      in case rr_id r of
           None \<Rightarrow> Inl KeyError
         | Some i \<Rightarrow>
             load_requests rs
               (dict_set rm i
                  \<lparr>req_id = i,
                   student_id = (case rr_student_id r of None \<Rightarrow> [] | Some s \<Rightarrow> s),
                   amount = amt,
                   urgency = urg,
                   status = (case rr_status r of None \<Rightarrow> ''submitted'' | Some s \<Rightarrow> s)\<rparr>))"

text \<open>\<^verbatim>\<open>payload.get("users", [])\<close> and \<^verbatim>\<open>payload.get("requests", [])\<close>.\<close>

definition get_users :: "payload \<Rightarrow> raw_user list" where
  "get_users p = (case p_users p of None \<Rightarrow> [] | Some us \<Rightarrow> us)"

definition get_requests :: "payload \<Rightarrow> raw_request list" where
  "get_requests p = (case p_requests p of None \<Rightarrow> [] | Some rs \<Rightarrow> rs)"

text \<open>
  \<^verbatim>\<open>load_state\<close>. \<^verbatim>\<open>payload.get\<close> on a JSON value that is not an object (a list, a
  number, a string) raises AttributeError outside the \<^verbatim>\<open>try\<close>.
\<close>

definition load_state ::
  "data_file \<Rightarrow> pyerror + ((string, User) dict \<times> (string, FundingRequest) dict)" where
  "load_state f =
     (case f of
        Missing \<Rightarrow> Inr ([], [])
      | Unparseable \<Rightarrow> Inr ([], [])
      | NotAnObject \<Rightarrow> Inl AttributeError
      | Parsed p \<Rightarrow>
          (case load_users (get_users p) [] of
             Inl e \<Rightarrow> Inl e
           | Inr um \<Rightarrow>
               (case load_requests (get_requests p) [] of
                  Inl e \<Rightarrow> Inl e
                | Inr rm \<Rightarrow> Inr (um, rm))))"

section \<open>The engine state and its start\<close>

text \<open>
  The module globals of \<^verbatim>\<open>app.py\<close>, which are the locals of \<^verbatim>\<open>main()\<close> in
  \<^verbatim>\<open>main.py\<close>, with the object store. \<open>bst\<close> is the root of the \<^verbatim>\<open>RequestBST\<close>.
  \<open>depth\<close> is not a variable of the program: it is the number of nested calls of
  \<^verbatim>\<open>_insert\<close> that the recursion limit allows when a submission calls
  \<^verbatim>\<open>bst.insert\<close>. No operation changes it.
\<close>

record state =
  objs :: store
  users_set :: "string set"
  users_map :: "(string, User) dict"
  requests_map :: "(string, ref) dict"
  bst :: BSTNode
  heap :: "entry list"
  approved_q :: "ref list"
  req_counter :: int
  depth :: nat

text \<open>
  The values the variables are given before the file is loaded. The depth is the one of the
  command-line program under the default limit of 1000 frames: the module, \<^verbatim>\<open>main\<close>
  and \<^verbatim>\<open>insert\<close> are on the stack when \<^verbatim>\<open>_insert\<close> is first called, and the last
  call of \<^verbatim>\<open>_insert\<close> needs one more frame for \<^verbatim>\<open>BSTNode.__init__\<close>. Under Flask
  more frames are taken and the depth is smaller; the statements about all runs take the
  depth as a parameter of the start.
\<close>

definition empty_state :: state where
  "empty_state =
     \<lparr>objs = [], users_set = {}, users_map = [], requests_map = [], bst = NoNode, heap = [],
      approved_q = make_queue, req_counter = 1, depth = 996\<rparr>"

text \<open>
  \<^verbatim>\<open>int(s)\<close> on a string of decimal digits, and \<^verbatim>\<open>str(n)\<close> as the f-string prints it.
  Recent versions of CPython refuse to convert between an integer and a decimal string of
  more than 4300 digits; numbers of that length are outside the model.
\<close>

definition is_digit :: "char \<Rightarrow> bool" where
  "is_digit c = (CHR ''0'' \<le> c \<and> c \<le> CHR ''9'')"

definition int_of_digits :: "string \<Rightarrow> int" where
  "int_of_digits s = foldl (\<lambda>a c. 10 * a + (int (of_char c) - 48)) 0 s"

fun str_nat :: "nat \<Rightarrow> string" where
  "str_nat n =
     (if n < 10 then [''0123456789'' ! n]
      else str_nat (n div 10) @ [''0123456789'' ! (n mod 10)])"

declare str_nat.simps [simp del]

definition str_int :: "int \<Rightarrow> string" where
  "str_int i = (if i < 0 then CHR ''-'' # str_nat (nat (- i)) else str_nat (nat i))"








text \<open>The dict of requests by value, as \<^verbatim>\<open>save_state\<close> reads it through the references.\<close>

definition requests_of :: "state \<Rightarrow> (string, FundingRequest) dict" where
  "requests_of st = map (\<lambda>(k, r). (k, objs st ! r)) (requests_map st)"

definition saved :: "state \<Rightarrow> data_file" where
  "saved st = save_state (users_map st) (requests_of st)"

section \<open>The operations\<close>

text \<open>
  What a handler tells its caller: one constructor for each message that \<^verbatim>\<open>app.py\<close>
  flashes or \<^verbatim>\<open>main.py\<close> prints, and \<open>Reviewing\<close> for the review page rendered with the
  popped request.
  \<^item> \<open>InvalidRegistration\<close>: "Invalid registration data"; \<open>InvalidRole\<close>: "Invalid role. Use
    student/admin/donor."; \<open>AlreadyRegistered\<close>: "User already registered"
  \<^item> \<open>StudentNotFound\<close>: "Student not found or invalid role"; \<open>InvalidAmountOrUrgency\<close>,
    \<open>InvalidAmount\<close>, \<open>InvalidUrgency\<close>: "Invalid amount or urgency", "Invalid amount.",
    "Invalid urgency."
  \<^item> \<open>AdminNotFound\<close>: "Admin not found or invalid role"; \<open>NoPending\<close>: "No pending requests
    to review"; \<open>AlreadyHandled\<close>: "Request already handled, pulling next if available."
  \<^item> \<open>RequestNotFound\<close>: "Request not found"
  \<^item> \<open>InvalidDonation\<close>: "Invalid donation amount"; \<open>DonorNotFound\<close>: "Donor not found or
    invalid role"; \<open>NoApproved\<close>: "No approved requests awaiting funding."; \<open>NotApproved\<close>:
    "Request not found or not approved"; \<open>Insufficient\<close>: "Donation insufficient to fully fund
    the request"
  \<^item> \<open>Registered\<close>, \<open>Submitted rid\<close>, \<open>Approved\<close>, \<open>Rejected\<close>, \<open>FullyFunded\<close>: the
    success messages.
\<close>

datatype outcome =
    InvalidRegistration | InvalidRole | AlreadyRegistered | Registered
  | StudentNotFound | InvalidAmountOrUrgency | InvalidAmount | InvalidUrgency | Submitted string
  | AdminNotFound | NoPending | AlreadyHandled | Reviewing ref
  | RequestNotFound | Approved | Rejected
  | InvalidDonation | DonorNotFound | NoApproved | NotApproved | Insufficient | FullyFunded

text \<open>
  The arguments of an operation are the values of the handler's local variables after the
  form or the prompt has been read: strings already stripped and lower-cased where the
  source does so, and for an amount or an urgency the result of \<^verbatim>\<open>float(...)\<close> or
  \<^verbatim>\<open>int(...)\<close> on the text, \<open>None\<close> when it raises ValueError. An operation returns
  \<open>Inl (e, st')\<close> when the handler raises \<open>e\<close>, with the state \<open>st'\<close> that the
  statements before the exception have left. Flask answers such a request with an error
  page and goes on serving from this state; the command-line program ends.
\<close>

text \<open>\<^verbatim>\<open>uid not in users_map or users_map[uid].role != r\<close>.\<close>

definition lacks_role :: "state \<Rightarrow> string \<Rightarrow> string \<Rightarrow> bool" where
  "lacks_role st uid r =
     (case dict_get (users_map st) uid of None \<Rightarrow> True | Some u \<Rightarrow> role u \<noteq> r)"

text \<open>\<^verbatim>\<open>req.status = s\<close> on the object behind a reference.\<close>

definition set_status :: "store \<Rightarrow> ref \<Rightarrow> string \<Rightarrow> store" where
  "set_status os r s = os[r := (os ! r)\<lparr>status := s\<rparr>]"

text \<open>
  The common end of both submit paths: the id is made from the counter, the object is
  created with the default status, stored in the dict and inserted in the tree and the heap.
\<close>

definition add_request ::
  "state \<Rightarrow> string \<Rightarrow> pyfloat \<Rightarrow> int \<Rightarrow> pyerror \<times> state + outcome \<times> state" where
  "add_request st sid amt urg =
     (let rid = CHR ''R'' # str_int (req_counter st);
          fr = \<lparr>req_id = rid, student_id = sid, amount = amt, urgency = urg,
                status = ''submitted''\<rparr>;
          r = length (objs st);
          os = objs st @ [fr];
          st1 = st\<lparr>objs := os,
                   req_counter := req_counter st + 1,
                   requests_map := dict_set (requests_map st) rid r\<rparr>
      in case bst_insert (depth st) os (bst st) r of
           Inl e \<Rightarrow> Inl (e, st1)
         | Inr t \<Rightarrow>
             (case push_heap os (heap st) r of
                Inl (e, h) \<Rightarrow> Inl (e, st1\<lparr>bst := t, heap := h\<rparr>)
              | Inr h \<Rightarrow> Inr (Submitted rid, st1\<lparr>bst := t, heap := h\<rparr>)))"

subsection \<open>app.py\<close>

text \<open>\<^verbatim>\<open>register\<close>.\<close>

definition register :: "state \<Rightarrow> string \<Rightarrow> string \<Rightarrow> string \<Rightarrow> outcome \<times> state" where
  "register st uid nm ro =
     (if uid = [] \<or> nm = [] \<or> ro \<notin> {''student'', ''admin'', ''donor''}
      then (InvalidRegistration, st)
      else if uid \<in> users_set st then (AlreadyRegistered, st)
      else (Registered,
            st\<lparr>users_set := insert uid (users_set st),
               users_map := dict_set (users_map st) uid \<lparr>user_id = uid, name = nm, role = ro\<rparr>\<rparr>))"

text \<open>\<^verbatim>\<open>submit\<close>: amount and urgency are parsed in one \<^verbatim>\<open>try\<close>.\<close>

definition submit ::
  "state \<Rightarrow> string \<Rightarrow> pyfloat option \<Rightarrow> int option \<Rightarrow> pyerror \<times> state + outcome \<times> state" where
  "submit st sid amount_in urgency_in =
     (if lacks_role st sid ''student'' then Inr (StudentNotFound, st)
      else case amount_in of
        None \<Rightarrow> Inr (InvalidAmountOrUrgency, st)
      | Some amt \<Rightarrow>
          (case urgency_in of
             None \<Rightarrow> Inr (InvalidAmountOrUrgency, st)
           | Some urg \<Rightarrow> add_request st sid amt urg))"

text \<open>\<^verbatim>\<open>admin_review\<close>: whatever is popped is handed to the review page.\<close>

definition admin_review :: "state \<Rightarrow> string \<Rightarrow> pyerror \<times> state + outcome \<times> state" where
  "admin_review st admin_id =
     (if lacks_role st admin_id ''admin'' then Inr (AdminNotFound, st)
      else case pop_heap (objs st) (heap st) of
        Inl (e, h) \<Rightarrow> Inl (e, st\<lparr>heap := h\<rparr>)
      | Inr (None, h) \<Rightarrow> Inr (NoPending, st\<lparr>heap := h\<rparr>)
      | Inr (Some r, h) \<Rightarrow> Inr (Reviewing r, st\<lparr>heap := h\<rparr>))"

text \<open>\<^verbatim>\<open>admin_decide\<close>: the request is looked up by id; its status is not read.\<close>

definition admin_decide :: "state \<Rightarrow> string \<Rightarrow> string \<Rightarrow> outcome \<times> state" where
  "admin_decide st rid decision =
     (case dict_get (requests_map st) rid of
        None \<Rightarrow> (RequestNotFound, st)
      | Some r \<Rightarrow>
          if decision = ''approve''
          then (Approved,
                st\<lparr>objs := set_status (objs st) r ''approved'',
                   approved_q := enqueue (approved_q st) r\<rparr>)
          else (Rejected, st\<lparr>objs := set_status (objs st) r ''rejected''\<rparr>))"

text \<open>\<^verbatim>\<open>donate\<close>: the donation is parsed before the donor is checked.\<close>

definition donate :: "state \<Rightarrow> string \<Rightarrow> string \<Rightarrow> pyfloat option \<Rightarrow> outcome \<times> state" where
  "donate st donor rid donation =
     (case donation of
        None \<Rightarrow> (InvalidDonation, st)
      | Some amt \<Rightarrow>
          if lacks_role st donor ''donor'' then (DonorNotFound, st)
          else case dict_get (requests_map st) rid of
            None \<Rightarrow> (NotApproved, st)
          | Some r \<Rightarrow>
              if status (objs st ! r) \<noteq> ''approved'' then (NotApproved, st)
              else if float_ge amt (amount (objs st ! r))
              then (FullyFunded,
                    st\<lparr>objs := set_status (objs st) r ''funded'',
                       approved_q := filter (\<lambda>x. req_id (objs st ! x) \<noteq> rid) (approved_q st)\<rparr>)
              else (Insufficient, st))"

subsection \<open>main.py\<close>

text \<open>
  The branches of the menu loop. Every answer comes from \<^verbatim>\<open>input_nonempty\<close>, which
  asks again until the stripped answer is not empty; a branch takes the answers to the
  prompts it would reach.
\<close>

text \<open>Option 1.\<close>

definition cli_register :: "state \<Rightarrow> string \<Rightarrow> string \<Rightarrow> string \<Rightarrow> outcome \<times> state" where
  "cli_register st uid nm ro =
     (if uid \<in> users_set st then (AlreadyRegistered, st)
      else if ro \<notin> {''student'', ''admin'', ''donor''} then (InvalidRole, st)
      else (Registered,
            st\<lparr>users_set := insert uid (users_set st),
               users_map := dict_set (users_map st) uid \<lparr>user_id = uid, name = nm, role = ro\<rparr>\<rparr>))"

text \<open>Option 2.\<close>

definition cli_submit ::
  "state \<Rightarrow> string \<Rightarrow> pyfloat option \<Rightarrow> int option \<Rightarrow> pyerror \<times> state + outcome \<times> state" where
  "cli_submit st sid amount_in urgency_in =
     (if lacks_role st sid ''student'' then Inr (StudentNotFound, st)
      else case amount_in of
        None \<Rightarrow> Inr (InvalidAmount, st)
      | Some amt \<Rightarrow>
          (case urgency_in of
             None \<Rightarrow> Inr (InvalidUrgency, st)
           | Some urg \<Rightarrow> add_request st sid amt urg))"

text \<open>
  Option 3: pop, skip a request that is no longer submitted, else ask for the decision
  (\<open>dec\<close>, lower-cased) and apply it to the popped object.
\<close>

definition cli_review ::
  "state \<Rightarrow> string \<Rightarrow> string \<Rightarrow> pyerror \<times> state + outcome \<times> state" where
  "cli_review st aid dec =
     (if lacks_role st aid ''admin'' then Inr (AdminNotFound, st)
      else case pop_heap (objs st) (heap st) of
        Inl (e, h) \<Rightarrow> Inl (e, st\<lparr>heap := h\<rparr>)
      | Inr (None, h) \<Rightarrow> Inr (NoPending, st\<lparr>heap := h\<rparr>)
      | Inr (Some r, h) \<Rightarrow>
          (case dict_get (requests_map st) (req_id (objs st ! r)) of
             None \<Rightarrow> Inr (AlreadyHandled, st\<lparr>heap := h\<rparr>)
           | Some r' \<Rightarrow>
               if status (objs st ! r') \<noteq> ''submitted'' then Inr (AlreadyHandled, st\<lparr>heap := h\<rparr>)
               else if dec = ''y''
               then Inr (Approved,
                         st\<lparr>heap := h,
                            objs := set_status (objs st) r ''approved'',
                            approved_q := enqueue (approved_q st) r\<rparr>)
               else Inr (Rejected,
                         st\<lparr>heap := h, objs := set_status (objs st) r ''rejected''\<rparr>)))"

text \<open>Option 4.\<close>

definition cli_donate :: "state \<Rightarrow> string \<Rightarrow> string \<Rightarrow> pyfloat option \<Rightarrow> outcome \<times> state" where
  "cli_donate st donor rid donation =
     (if lacks_role st donor ''donor'' then (DonorNotFound, st)
      else if approved_q st = [] then (NoApproved, st)
      else case dict_get (requests_map st) rid of
        None \<Rightarrow> (NotApproved, st)
      | Some r \<Rightarrow>
          if status (objs st ! r) \<noteq> ''approved'' then (NotApproved, st)
          else case donation of
            None \<Rightarrow> (InvalidDonation, st)
          | Some amt \<Rightarrow>
              if float_ge amt (amount (objs st ! r))
              then (FullyFunded,
                    st\<lparr>objs := set_status (objs st) r ''funded'',
                       approved_q := filter (\<lambda>x. req_id (objs st ! x) \<noteq> rid) (approved_q st)\<rparr>)
              else (Insufficient, st))"

subsection \<open>Runs\<close>

text \<open>
  An operation of either front end, and the state after a sequence of them. A run ends at
  the first operation that raises, with the exception and the state left by it.
\<close>

datatype op =
    WebRegister string string string
  | WebSubmit string "pyfloat option" "int option"
  | WebReview string
  | WebDecide string string
  | WebDonate string string "pyfloat option"
  | CliRegister string string string
  | CliSubmit string "pyfloat option" "int option"
  | CliReview string string
  | CliDonate string string "pyfloat option"

fun step :: "state \<Rightarrow> op \<Rightarrow> pyerror \<times> state + outcome \<times> state" where
  "step st (WebRegister uid nm ro) = Inr (register st uid nm ro)"
| "step st (WebSubmit sid a u) = submit st sid a u"
| "step st (WebReview aid) = admin_review st aid"
| "step st (WebDecide rid d) = Inr (admin_decide st rid d)"
| "step st (WebDonate donor rid a) = Inr (donate st donor rid a)"
| "step st (CliRegister uid nm ro) = Inr (cli_register st uid nm ro)"
| "step st (CliSubmit sid a u) = cli_submit st sid a u"
| "step st (CliReview aid d) = cli_review st aid d"
| "step st (CliDonate donor rid a) = Inr (cli_donate st donor rid a)"

fun run :: "state \<Rightarrow> op list \<Rightarrow> pyerror \<times> state + state" where
  "run st [] = Inr st"
| "run st (x # xs) = (case step st x of Inl e \<Rightarrow> Inl e | Inr (out, st') \<Rightarrow> run st' xs)"

text \<open>The operations of the command-line program.\<close>

fun is_cli :: "op \<Rightarrow> bool" where
  "is_cli (CliRegister _ _ _) = True"
| "is_cli (CliSubmit _ _ _) = True"
| "is_cli (CliReview _ _) = True"
| "is_cli (CliDonate _ _ _) = True"
| "is_cli _ = False"

section \<open>Properties of the structures\<close>

subsection \<open>Heaps\<close>


text \<open>Position \<open>j\<close> is a child of position \<open>i\<close> in the list layout of \<^verbatim>\<open>heapq\<close>.\<close>

abbreviation child :: "nat \<Rightarrow> nat \<Rightarrow> bool" where
  "child j i \<equiv> (j = 2 * i + 1 \<or> j = 2 * i + 2)"

text \<open>The heap invariant of \<^verbatim>\<open>heapq\<close>: no element is smaller than its parent.\<close>

definition is_heap :: "('a \<Rightarrow> 'k::linorder) \<Rightarrow> 'a list \<Rightarrow> bool" where
  "is_heap f h = (\<forall>i j. j < length h \<and> child j i \<longrightarrow> f (h ! i) \<le> f (h ! j))"



subsection \<open>The amount index\<close>

text \<open>The requests of a tree from left to right: what \<^verbatim>\<open>left_to_right\<close> lists when it returns.\<close>

fun left_to_right :: "BSTNode \<Rightarrow> ref list" where
  "left_to_right NoNode = []"
| "left_to_right (BSTNode l q rt) = left_to_right l @ q # left_to_right rt"

text \<open>
  The tree with a new leaf for \<open>r\<close> at the end of the path that the comparisons of the
  amounts select: what \<^verbatim>\<open>_insert\<close> builds when it returns.
\<close>

fun ins_tree :: "store \<Rightarrow> BSTNode \<Rightarrow> ref \<Rightarrow> BSTNode" where
  "ins_tree os NoNode r = BSTNode NoNode r NoNode"
| "ins_tree os (BSTNode l q rt) r =
     (if float_lt (amount (os ! r)) (amount (os ! q))
      then BSTNode (ins_tree os l r) q rt
      else BSTNode l q (ins_tree os rt r))"

text \<open>The number of nested calls that \<^verbatim>\<open>_insert\<close> makes on that path.\<close>

fun insert_calls :: "store \<Rightarrow> BSTNode \<Rightarrow> ref \<Rightarrow> nat" where
  "insert_calls os NoNode r = 1"
| "insert_calls os (BSTNode l q rt) r =
     (if float_lt (amount (os ! r)) (amount (os ! q))
      then Suc (insert_calls os l r)
      else Suc (insert_calls os rt r))"

text \<open>The number of levels of a tree.\<close>

fun height :: "BSTNode \<Rightarrow> nat" where
  "height NoNode = 0"
| "height (BSTNode l q rt) = Suc (max (height l) (height rt))"

text \<open>The number of an id \<open>R<digits>\<close> with ASCII digits, as the program makes them.\<close>

definition id_digits :: "string \<Rightarrow> int option" where
  "id_digits rid =
     (case rid of
        [] \<Rightarrow> None
      | c # ds \<Rightarrow> if c = CHR ''R'' \<and> ds \<noteq> [] \<and> list_all is_digit ds
                  then Some (int_of_digits ds) else None)"

text \<open>
  The search-tree invariant over the amounts \<open>a\<close> of the references: what is left of a
  node is less than the node, what is right of it is not.
\<close>

fun bst_ok :: "(ref \<Rightarrow> pyfloat) \<Rightarrow> BSTNode \<Rightarrow> bool" where
  "bst_ok a NoNode = True"
| "bst_ok a (BSTNode l q rt) =
     (bst_ok a l \<and> bst_ok a rt \<and>
      (\<forall>x\<in>set (left_to_right l). float_lt (a x) (a q)) \<and>
      (\<forall>x\<in>set (left_to_right rt). \<not> float_lt (a x) (a q)))"

text \<open>
  Insertion into an ordered view: the new reference goes in front of the first entry whose
  amount is greater than its own, so behind every entry of the same amount.
\<close>

definition ins_view :: "(ref \<Rightarrow> pyfloat) \<Rightarrow> ref \<Rightarrow> ref list \<Rightarrow> ref list" where
  "ins_view a r xs =
     takeWhile (\<lambda>q. \<not> float_lt (a r) (a q)) xs @ r # dropWhile (\<lambda>q. \<not> float_lt (a r) (a q)) xs"

text \<open>No later entry of the view has a smaller amount than an earlier one.\<close>

definition never_decreasing :: "(ref \<Rightarrow> pyfloat) \<Rightarrow> ref list \<Rightarrow> bool" where
  "never_decreasing a xs = sorted_wrt (\<lambda>x y. \<not> float_lt (a y) (a x)) xs"

text \<open>
  Entries of equal amount stand in the order in which their objects were created
  (references are given out in increasing order).
\<close>

definition ties_in_creation_order :: "(ref \<Rightarrow> pyfloat) \<Rightarrow> ref list \<Rightarrow> bool" where
  "ties_in_creation_order a xs = sorted_wrt (\<lambda>x y. float_eq (a x) (a y) \<longrightarrow> x < y) xs"

subsection \<open>The engine state\<close>

text \<open>The amounts of the stored objects, by reference.\<close>

abbreviation amounts :: "store \<Rightarrow> ref \<Rightarrow> pyfloat" where
  "amounts os \<equiv> (\<lambda>r. amount (os ! r))"

text \<open>The heap entry that \<^verbatim>\<open>push_heap\<close> makes for a request, and the part of it that orders the heap.\<close>

definition entry_of :: "store \<Rightarrow> ref \<Rightarrow> entry" where
  "entry_of os r = (- urgency (os ! r), req_id (os ! r), r)"

definition entry_key :: "entry \<Rightarrow> int \<times> string" where
  "entry_key e = (fst e, fst (snd e))"

text \<open>
  The invariant of the engine state, which holds after the start and after every operation of
  either front end:
  \<^item> the requests dict holds every object of the store once, under the object's own id, in the
    order of creation, and no two objects have the same id;
  \<^item> the heap is a \<^verbatim>\<open>heapq\<close> heap of entries made from stored objects, each at most once;
  \<^item> the tree is a search tree that holds every object once, ties in creation order;
  \<^item> the approved queue holds stored objects;
  \<^item> the id counter is positive and above the number of every id of the form \<open>R<digits>\<close>;
  \<^item> the user set is the key set of the users dict, and every user is stored under its id.
\<close>

definition state_ok :: "state \<Rightarrow> bool" where
  "state_ok st =
     (dict_values (requests_map st) = [0 ..< length (objs st)] \<and>
      dict_keys (requests_map st) = map req_id (objs st) \<and>
      distinct (map req_id (objs st)) \<and>
      is_heap entry_key (heap st) \<and>
      set (heap st) \<subseteq> entry_of (objs st) ` {0 ..< length (objs st)} \<and>
      distinct (heap st) \<and>
      bst_ok (amounts (objs st)) (bst st) \<and>
      mset (left_to_right (bst st)) = mset [0 ..< length (objs st)] \<and>
      ties_in_creation_order (amounts (objs st)) (left_to_right (bst st)) \<and>
      set (approved_q st) \<subseteq> {0 ..< length (objs st)} \<and>
      0 < req_counter st \<and>
      (\<forall>r n. r < length (objs st) \<and> id_digits (req_id (objs st ! r)) = Some n
             \<longrightarrow> n < req_counter st) \<and>
      users_set st = set (dict_keys (users_map st)) \<and>
      distinct (dict_keys (users_map st)) \<and>
      (\<forall>(k, u)\<in>set (users_map st). user_id u = k))"


section \<open>Correctness of the heap operations\<close>

text \<open>
  \<^verbatim>\<open>heappush\<close> and \<^verbatim>\<open>heappop\<close> keep the heap invariant and the contents, and do not
  raise, on lists whose elements the comparison orders. The smallest key is at index 0.
\<close>

lemma parent_child: "0 < pos \<Longrightarrow> child pos ((pos - 1) div 2)"
  by presburger











section \<open>Correctness of the amount index\<close>



lemma float_lt_irrefl: "\<not> float_lt a a"
  by (cases a) auto


lemma float_ge_iff: "a \<noteq> NaN \<Longrightarrow> b \<noteq> NaN \<Longrightarrow> float_ge b a \<longleftrightarrow> \<not> float_lt b a"
  by (cases a; cases b) (auto simp: float_ge_def float_eq_def)










lemma bst_insert_cong:
  "(\<forall>x\<in>insert r (set (left_to_right t)). amount (os ! x) = amount (os' ! x)) \<Longrightarrow>
   ins_tree os t r = ins_tree os' t r"
  by (induction t) auto



subsection \<open>The recursion of the tree methods\<close>

lemma insert_calls_pos: "0 < insert_calls os t r"
  by (cases t) simp_all




lemma insert_calls_height: "insert_calls os t r \<le> Suc (height t)"
  by (induction t) auto

lemma height_ins_tree: "height (ins_tree os t r) \<le> Suc (height t)"
  by (induction t) auto

section \<open>Ids, dicts and heap entries\<close>

subsection \<open>Ids\<close>




subsection \<open>Dicts\<close>





subsection \<open>The order of the heap entries\<close>





section \<open>The invariant of the engine state\<close>

subsection \<open>The urgency heap\<close>

lemma entry_of_append: "r < length os \<Longrightarrow> entry_of (os @ [x]) r = entry_of os r"
  by (simp add: entry_of_def nth_append)

lemma set_status_nth:
  "set_status os q s ! r = (if r = q \<and> q < length os then (os ! q)\<lparr>status := s\<rparr> else os ! r)"
  by (cases "q < length os") (auto simp: set_status_def nth_list_update list_update_beyond)




subsection \<open>Changes that keep the invariant\<close>

lemma never_decreasing_cong:
  "(\<forall>x\<in>set xs. a x = b x) \<Longrightarrow> never_decreasing a xs = never_decreasing b xs"
  unfolding never_decreasing_def by (induction xs) auto




lemma status_set_status:
  "r < length os \<Longrightarrow> status (set_status os r s ! x) = (if x = r then s else status (os ! x))"
  by (simp add: set_status_nth)













lemma wf_heap_same: "state_ok st \<Longrightarrow> state_ok (st\<lparr>heap := heap st\<rparr>)"
  by simp
















lemma depth_step: "step st x = Inr (out, st') \<Longrightarrow> depth st' = depth st"
  by (cases x)
     (auto simp: register_def submit_def admin_review_def admin_decide_def donate_def
        cli_register_def cli_submit_def cli_review_def cli_donate_def add_request_def Let_def
        split: if_splits option.splits sum.splits prod.splits)

lemma depth_run: "run st xs = Inr st' \<Longrightarrow> depth st' = depth st"
proof (induction xs arbitrary: st)
  case Nil
  then show ?case by simp
next
  case (Cons x xs)
  from Cons.prems obtain out st1 where
    s: "step st x = Inr (out, st1)" "run st1 xs = Inr st'"
    by (auto split: sum.splits)
  from Cons.IH[OF s(2)] depth_step[OF s(1)] show ?case by simp
qed

lemma wf_empty: "state_ok empty_state"
  by (simp add: state_ok_def empty_state_def is_heap_def dict_values_def dict_keys_def make_queue_def
      ties_in_creation_order_def)

subsection \<open>The start\<close>

lemma load_users_result:
  "load_users us um =
     (if \<exists>u\<in>set us. ru_id u = None then Inl KeyError
      else Inr (fold (\<lambda>u m. dict_set m (the (ru_id u))
                   \<lparr>user_id = the (ru_id u),
                    name = (case ru_name u of None \<Rightarrow> [] | Some n \<Rightarrow> n),
                    role = (case ru_role u of None \<Rightarrow> ''student'' | Some ro \<Rightarrow> ro)\<rparr>) us um))"
  by (induction us arbitrary: um) (auto split: option.splits)

lemma load_requests_result:
  "load_requests rs rm =
     (if \<exists>r\<in>set rs. rr_id r = None then Inl KeyError
      else Inr (fold (\<lambda>r m. dict_set m (the (rr_id r))
                   \<lparr>req_id = the (rr_id r),
                    student_id = (case rr_student_id r of None \<Rightarrow> [] | Some s \<Rightarrow> s),
                    amount = (case rr_amount r of None \<Rightarrow> Finite 0 | Some a \<Rightarrow> a),
                    urgency = (case rr_urgency r of None \<Rightarrow> 1 | Some u \<Rightarrow> u),
                    status = (case rr_status r of None \<Rightarrow> ''submitted'' | Some s \<Rightarrow> s)\<rparr>)
                 rs rm))"
  by (induction rs arbitrary: rm) (auto split: option.splits simp: Let_def)





lemma mset_ins_view: "mset (ins_view a r xs) = add_mset r (mset xs)"
proof -
  have "mset (takeWhile P xs) + mset (dropWhile P xs) = mset xs" for P :: "nat \<Rightarrow> bool"
    by (metis mset_append takeWhile_dropWhile_id)
  then show ?thesis by (simp add: ins_view_def)
qed








section \<open>Runs\<close>





section \<open>Loading\<close>

text \<open>
  C10. \<^verbatim>\<open>load_state\<close> returns empty registries for a missing or unparseable file. For a
  parsed object with the arrays \<open>us\<close> under \<^verbatim>\<open>users\<close> and \<open>rs\<close> under \<^verbatim>\<open>requests\<close>
  (an absent array counts as empty): when a record of \<open>us\<close> or of \<open>rs\<close>, at whatever
  position, has no id, \<^verbatim>\<open>load_state\<close> raises KeyError, the record is neither skipped nor
  given a default id; when every record has an id, it returns the two dicts built by
  assigning the records in order under their ids, each absent key replaced by its default
  (empty name, role student, empty student id, amount 0.0, urgency 1, status submitted).
\<close>

theorem load_state_tolerant_except_id:
  "load_state Missing = Inr ([], []) \<and>
   load_state Unparseable = Inr ([], []) \<and>
   ((p_users p = None \<and> us = [] \<or> p_users p = Some us) \<and>
    (p_requests p = None \<and> rs = [] \<or> p_requests p = Some rs) \<longrightarrow>
    load_state (Parsed p) =
     (if (\<exists>u\<in>set us. ru_id u = None) \<or> (\<exists>r\<in>set rs. rr_id r = None) then Inl KeyError
      else Inr (fold (\<lambda>u m. dict_set m (the (ru_id u))
                        \<lparr>user_id = the (ru_id u),
                         name = (case ru_name u of None \<Rightarrow> [] | Some n \<Rightarrow> n),
                         role = (case ru_role u of None \<Rightarrow> ''student'' | Some ro \<Rightarrow> ro)\<rparr>)
                  us [],
                fold (\<lambda>r m. dict_set m (the (rr_id r))
                        \<lparr>req_id = the (rr_id r),
                         student_id = (case rr_student_id r of None \<Rightarrow> [] | Some s \<Rightarrow> s),
                         amount = (case rr_amount r of None \<Rightarrow> Finite 0 | Some a \<Rightarrow> a),
                         urgency = (case rr_urgency r of None \<Rightarrow> 1 | Some u \<Rightarrow> u),
                         status = (case rr_status r of None \<Rightarrow> ''submitted'' | Some s \<Rightarrow> s)\<rparr>)
                  rs [])))"
proof -
  have a: "load_state Missing = Inr ([], [])" "load_state Unparseable = Inr ([], [])"
    by (simp_all add: load_state_def)
  have b: "load_state (Parsed p) =
     (if (\<exists>u\<in>set us. ru_id u = None) \<or> (\<exists>r\<in>set rs. rr_id r = None) then Inl KeyError
      else Inr (fold (\<lambda>u m. dict_set m (the (ru_id u))
                        \<lparr>user_id = the (ru_id u),
                         name = (case ru_name u of None \<Rightarrow> [] | Some n \<Rightarrow> n),
                         role = (case ru_role u of None \<Rightarrow> ''student'' | Some ro \<Rightarrow> ro)\<rparr>)
                  us [],
                fold (\<lambda>r m. dict_set m (the (rr_id r))
                        \<lparr>req_id = the (rr_id r),
                         student_id = (case rr_student_id r of None \<Rightarrow> [] | Some s \<Rightarrow> s),
                         amount = (case rr_amount r of None \<Rightarrow> Finite 0 | Some a \<Rightarrow> a),
                         urgency = (case rr_urgency r of None \<Rightarrow> 1 | Some u \<Rightarrow> u),
                         status = (case rr_status r of None \<Rightarrow> ''submitted'' | Some s \<Rightarrow> s)\<rparr>)
                  rs []))"
    if "p_users p = None \<and> us = [] \<or> p_users p = Some us"
      and "p_requests p = None \<and> rs = [] \<or> p_requests p = Some rs"
  proof -
    from that have g: "get_users p = us" "get_requests p = rs"
      by (auto simp: get_users_def get_requests_def)
    show ?thesis
      unfolding load_state_def data_file.case g load_users_result load_requests_result
      by (simp split: if_splits)
  qed
  from a b show ?thesis by blast
qed

theorem load_state_tolerant_except_id_witness:
  "load_state (Parsed \<lparr>p_users = Some [\<lparr>ru_id = Some ''s1'', ru_name = None, ru_role = None\<rparr>],
                       p_requests = Some [\<lparr>rr_id = Some ''R1'', rr_student_id = Some ''s1'',
                                           rr_amount = Some (Finite 100), rr_urgency = Some 5,
                                           rr_status = Some ''submitted''\<rparr>,
                                          \<lparr>rr_id = None, rr_student_id = Some ''s1'',
                                           rr_amount = Some (Finite 100), rr_urgency = Some 5,
                                           rr_status = Some ''submitted''\<rparr>]\<rparr>) = Inl KeyError \<and>
   load_state (Parsed \<lparr>p_users = None,
                       p_requests = Some [\<lparr>rr_id = Some ''R1'', rr_student_id = None,
                                           rr_amount = None, rr_urgency = None,
                                           rr_status = None\<rparr>]\<rparr>) =
     Inr ([], [(''R1'', \<lparr>req_id = ''R1'', student_id = [], amount = Finite 0, urgency = 1,
                         status = ''submitted''\<rparr>)])"
  using load_state_tolerant_except_id
          [of "\<lparr>p_users = Some [\<lparr>ru_id = Some ''s1'', ru_name = None, ru_role = None\<rparr>],
                p_requests = Some [\<lparr>rr_id = Some ''R1'', rr_student_id = Some ''s1'',
                                    rr_amount = Some (Finite 100), rr_urgency = Some 5,
                                    rr_status = Some ''submitted''\<rparr>,
                                   \<lparr>rr_id = None, rr_student_id = Some ''s1'',
                                    rr_amount = Some (Finite 100), rr_urgency = Some 5,
                                    rr_status = Some ''submitted''\<rparr>]\<rparr>"
              "[\<lparr>ru_id = Some ''s1'', ru_name = None, ru_role = None\<rparr>]"
              "[\<lparr>rr_id = Some ''R1'', rr_student_id = Some ''s1'',
                 rr_amount = Some (Finite 100), rr_urgency = Some 5,
                 rr_status = Some ''submitted''\<rparr>,
                \<lparr>rr_id = None, rr_student_id = Some ''s1'',
                 rr_amount = Some (Finite 100), rr_urgency = Some 5,
                 rr_status = Some ''submitted''\<rparr>]"]
        load_state_tolerant_except_id
          [of "\<lparr>p_users = None,
                p_requests = Some [\<lparr>rr_id = Some ''R1'', rr_student_id = None,
                                    rr_amount = None, rr_urgency = None,
                                    rr_status = None\<rparr>]\<rparr>"
              "[]"
              "[\<lparr>rr_id = Some ''R1'', rr_student_id = None, rr_amount = None,
                 rr_urgency = None, rr_status = None\<rparr>]"]
  by simp

section \<open>Registration\<close>

text \<open>
  C9, as the code has it. A register call with an id that is already in the user set fails
  and leaves the state as it is. The command-line branch reports the duplicate before it
  asks for anything else. The web handler checks the form first: it reports the duplicate
  when the id and the name are not empty and the role is one of the three, and invalid
  registration data otherwise (an empty id can be in the user set when the data file holds
  a user with the id \<^verbatim>\<open>""\<close>).
\<close>

theorem register_duplicate_unchanged:
  assumes "uid \<in> users_set st"
  shows "cli_register st uid nm ro = (AlreadyRegistered, st) \<and>
         register st uid nm ro =
           (if uid = [] \<or> nm = [] \<or> ro \<notin> {''student'', ''admin'', ''donor''}
            then InvalidRegistration else AlreadyRegistered, st)"
  using assms by (simp add: cli_register_def register_def)

theorem register_duplicate_unchanged_witness:
  "''s1'' \<in> users_set (snd (register empty_state ''s1'' ''Ana'' ''student'')) \<and>
   register (snd (register empty_state ''s1'' ''Ana'' ''student'')) ''s1'' ''Bo'' ''admin'' =
     (AlreadyRegistered, snd (register empty_state ''s1'' ''Ana'' ''student'')) \<and>
   cli_register (snd (register empty_state ''s1'' ''Ana'' ''student'')) ''s1'' ''Bo'' ''admin'' =
     (AlreadyRegistered, snd (register empty_state ''s1'' ''Ana'' ''student''))"
proof -
  have h: "''s1'' \<in> users_set (snd (register empty_state ''s1'' ''Ana'' ''student''))"
    by (simp add: register_def empty_state_def)
  show ?thesis
    using h register_duplicate_unchanged [OF h, of "''Bo''" "''admin''"] by simp
qed

text \<open>
  The claim as the specification states it fails on the web handler: a second registration of
  \<open>s1\<close> with a role that is not one of the three is answered with "Invalid registration
  data", not with "User already registered".
\<close>

theorem register_duplicate_counterexample:
  "''s1'' \<in> users_set (snd (register empty_state ''s1'' ''Ana'' ''student'')) \<and>
   fst (register (snd (register empty_state ''s1'' ''Ana'' ''student'')) ''s1'' ''Ana'' ''teacher'')
     = InvalidRegistration \<and>
   InvalidRegistration \<noteq> AlreadyRegistered"
  by (simp add: register_def empty_state_def)

section \<open>Donations\<close>

lemma float_lt_not_ge: "float_lt a b \<Longrightarrow> \<not> float_ge a b"
  by (cases a; cases b) (auto simp: float_ge_def float_eq_def)

text \<open>
  C5. Take a request that the dict holds under its id and whose status is approved, and a
  registered donor. A donation that is at least the amount of the request sets the status to
  funded and takes every entry with that id out of the approved queue; nothing else changes.
  A donation below the amount is answered with "Donation insufficient" and leaves the whole
  state as it was, so nothing of it is kept for a later attempt. Both front ends do the same;
  the command-line branch is reached when the approved queue is not empty.
\<close>

theorem donate_all_or_nothing:
  assumes "\<not> lacks_role st donor ''donor''"
    and "dict_get (requests_map st) rid = Some r"
    and "r < length (objs st)"
    and "req_id (objs st ! r) = rid"
    and "status (objs st ! r) = ''approved''"
  shows "(float_ge amt (amount (objs st ! r)) \<longrightarrow>
           (\<exists>st'. donate st donor rid (Some amt) = (FullyFunded, st') \<and>
                  (approved_q st \<noteq> [] \<longrightarrow> cli_donate st donor rid (Some amt) = (FullyFunded, st')) \<and>
                  st' = st\<lparr>objs := (objs st)[r := (objs st ! r)\<lparr>status := ''funded''\<rparr>],
                           approved_q := filter (\<lambda>x. req_id (objs st ! x) \<noteq> rid) (approved_q st)\<rparr> \<and>
                  status (objs st' ! r) = ''funded'' \<and>
                  r \<notin> set (approved_q st'))) \<and>
         (float_lt amt (amount (objs st ! r)) \<longrightarrow>
            donate st donor rid (Some amt) = (Insufficient, st) \<and>
            (approved_q st \<noteq> [] \<longrightarrow> cli_donate st donor rid (Some amt) = (Insufficient, st)))"
  using assms by (auto simp: donate_def cli_donate_def set_status_def dest: float_lt_not_ge)

definition donation_state :: state where
  "donation_state =
     \<lparr>objs = [\<lparr>req_id = ''R1'', student_id = ''s1'', amount = Finite 50, urgency = 9,
               status = ''approved''\<rparr>],
      users_set = {''s1'', ''d1''},
      users_map = [(''s1'', \<lparr>user_id = ''s1'', name = ''Ana'', role = ''student''\<rparr>),
                   (''d1'', \<lparr>user_id = ''d1'', name = ''Cy'', role = ''donor''\<rparr>)],
      requests_map = [(''R1'', 0)],
      bst = BSTNode NoNode 0 NoNode,
      heap = [],
      approved_q = [0],
      req_counter = 2,
      depth = 996\<rparr>"

theorem donate_all_or_nothing_witness:
  "donate donation_state ''d1'' ''R1'' (Some (Finite 50)) =
     (FullyFunded,
      donation_state\<lparr>objs := [\<lparr>req_id = ''R1'', student_id = ''s1'', amount = Finite 50,
                               urgency = 9, status = ''funded''\<rparr>],
                     approved_q := []\<rparr>) \<and>
   donate donation_state ''d1'' ''R1'' (Some (Finite 49)) = (Insufficient, donation_state) \<and>
   cli_donate donation_state ''d1'' ''R1'' (Some (Finite 49)) = (Insufficient, donation_state)"
proof -
  have h: "\<not> lacks_role donation_state ''d1'' ''donor''"
    "dict_get (requests_map donation_state) ''R1'' = Some 0"
    "0 < length (objs donation_state)"
    "req_id (objs donation_state ! 0) = ''R1''"
    "status (objs donation_state ! 0) = ''approved''"
    by (simp_all add: donation_state_def lacks_role_def dict_get_def)
  have ge: "float_ge (Finite 50) (amount (objs donation_state ! 0))"
    and lt: "float_lt (Finite 49) (amount (objs donation_state ! 0))"
    and ne: "approved_q donation_state \<noteq> []"
    by (simp_all add: donation_state_def float_ge_def float_eq_def)
  from donate_all_or_nothing [OF h, of "Finite 50"] ge
  have a: "donate donation_state ''d1'' ''R1'' (Some (Finite 50)) =
     (FullyFunded,
      donation_state\<lparr>objs := [\<lparr>req_id = ''R1'', student_id = ''s1'', amount = Finite 50,
                               urgency = 9, status = ''funded''\<rparr>],
                     approved_q := []\<rparr>)"
    by (auto simp: donation_state_def)
  from donate_all_or_nothing [OF h, of "Finite 49"] lt ne
  have b: "donate donation_state ''d1'' ''R1'' (Some (Finite 49)) = (Insufficient, donation_state)"
    "cli_donate donation_state ''d1'' ''R1'' (Some (Finite 49)) = (Insufficient, donation_state)"
    by blast+
  from a b show ?thesis by blast
qed

section \<open>The web handlers on stale and decided requests\<close>

text \<open>
  A student, an admin and a donor, and one request \<open>R1\<close> submitted through the web form.
\<close>

definition web_setup :: "op list" where
  "web_setup =
     [WebRegister ''s1'' ''Ana'' ''student'',
      WebRegister ''a1'' ''Bo'' ''admin'',
      WebRegister ''d1'' ''Cy'' ''donor'',
      WebSubmit ''s1'' (Some (Finite 100)) (Some 5)]"

text \<open>
  C2 on \<^verbatim>\<open>admin_decide\<close> of \<^verbatim>\<open>app.py\<close>. After \<open>R1\<close> has been approved, a second
  approval of \<open>R1\<close> is not refused: it is answered with "approved" and the request is in the
  approved queue twice. The command-line branch decides only a request whose status it has
  just found to be submitted.
\<close>

theorem admin_decide_approves_twice:
  "(case run empty_state (web_setup @ [WebDecide ''R1'' ''approve'']) of
      Inl e \<Rightarrow> False
    | Inr st \<Rightarrow>
        dict_get (requests_map st) ''R1'' = Some 0 \<and>
        status (objs st ! 0) = ''approved'' \<and>
        approved_q st = [0] \<and>
        fst (admin_decide st ''R1'' ''approve'') = Approved \<and>
        approved_q (snd (admin_decide st ''R1'' ''approve'')) = [0, 0])"
  by code_simp

text \<open>
  C3 on \<^verbatim>\<open>admin_decide\<close> of \<^verbatim>\<open>app.py\<close>. After \<open>R1\<close> has been approved, a rejection of
  \<open>R1\<close> sets its status to rejected and leaves it in the approved queue.
\<close>

theorem admin_decide_rejects_queued:
  "(case run empty_state (web_setup @ [WebDecide ''R1'' ''approve'', WebDecide ''R1'' ''reject'']) of
      Inl e \<Rightarrow> False
    | Inr st \<Rightarrow>
        dict_get (requests_map st) ''R1'' = Some 0 \<and>
        status (objs st ! 0) = ''rejected'' \<and>
        0 \<in> set (approved_q st))"
  by code_simp

text \<open>
  C7 on \<^verbatim>\<open>admin_review\<close> of \<^verbatim>\<open>app.py\<close>. \<open>R1\<close> is approved through the decide form
  while it is still in the heap. The next review pops it and renders the review page for it,
  although its status is approved. The command-line branch answers "Request already
  handled" on the same state, and both take the entry out of the heap.
\<close>

theorem admin_review_returns_stale:
  "(case run empty_state (web_setup @ [WebDecide ''R1'' ''approve'']) of
      Inl e \<Rightarrow> False
    | Inr st \<Rightarrow>
        heap st = [(- 5, ''R1'', 0)] \<and>
        status (objs st ! 0) = ''approved'' \<and>
        admin_review st ''a1'' = Inr (Reviewing 0, st\<lparr>heap := []\<rparr>) \<and>
        cli_review st ''a1'' ''y'' = Inr (AlreadyHandled, st\<lparr>heap := []\<rparr>))"
  by code_simp

section \<open>The amount-ordered view\<close>

subsection \<open>Submissions of one amount\<close>









subsection \<open>The claim\<close>





section \<open>The review order\<close>






end
